theory Spec2Isabelle
  imports Main "HOL-Library.AList"
begin

section \<open>Python values and failures\<close>

text \<open>
  The server is one Python 3 module, \<^verbatim>\<open>runserver.py\<close>. Its classes are modelled as
  records and its methods as functions that take the object and return the object as the
  call leaves it, paired with what the call produces. An exception is a value: a method
  yields \<open>Inl e\<close> where the interpreter would raise \<open>e\<close>, and the object returned with
  it carries every assignment made before the raise, since Python undoes nothing.

  The interpreter is the one the first line of the file names, \<^verbatim>\<open>python3\<close>: \<open>filter\<close>
  and \<open>map\<close> return iterators, and iterating a dict yields its keys.

  The module-level tables are read as the values their initialisers spell out. The
  literal of \<open>SHIPS\<close> lacks the comma after its first entry, and the line of
  \<open>SHIPS_INTCODES\<close> hands its lambda to \<open>dict\<close> without \<open>map\<close>; they are taken as the
  catalog of five entries and as the table the lambda describes, from intcode to ship id.
  The bodies of the methods are modelled statement by statement, as they are written.
\<close>

datatype pyerror = KeyError | IndexError | TypeError | AttributeError | NameError

text \<open>A dict is an association list in insertion order; \<open>d[k]\<close> raises on a missing key.\<close>

definition dict_get :: "('k \<times> 'v) list \<Rightarrow> 'k \<Rightarrow> pyerror + 'v" where
  "dict_get d k = (case map_of d k of None \<Rightarrow> Inl KeyError | Some v \<Rightarrow> Inr v)"

text \<open>
  An integer index into a sequence of \<open>n\<close> elements: a negative index counts from the
  end, anything outside \<open>-n \<le> i < n\<close> raises IndexError.
\<close>

definition py_index :: "nat \<Rightarrow> int \<Rightarrow> nat option" where
  "py_index n i =
     (if 0 \<le> i \<and> i < int n then Some (nat i)
      else if - int n \<le> i \<and> i < 0 then Some (nat (i + int n))
      else None)"

text \<open>
  A slice bound is clamped, never refused: \<open>a[start:stop]\<close> on \<open>n\<close> elements addresses
  the indices from the clamped start up to the clamped stop.
\<close>

definition slice_bound :: "nat \<Rightarrow> int \<Rightarrow> nat" where
  "slice_bound n i = (if i < 0 then nat (max (i + int n) 0) else nat (min i (int n)))"

definition py_slice :: "nat \<Rightarrow> int \<Rightarrow> int \<Rightarrow> nat list" where
  "py_slice n start stop = [slice_bound n start ..< slice_bound n stop]"

text \<open>
  Three lookups that the module always gets wrong. \<open>filter\<close> returns an iterator, and
  \<open>len\<close> of an iterator is a TypeError. The keys of the ship dict are strings, and a
  string has none of the attributes \<open>sunk\<close>, \<open>export\<close>, \<open>register_hit\<close>. A name that
  no statement binds raises NameError when it is read.
\<close>

definition len_of_filter_object :: "pyerror + nat" where
  "len_of_filter_object = Inl TypeError"

definition str_getattr :: "string \<Rightarrow> string \<Rightarrow> pyerror + 'a" where
  "str_getattr s name = Inl AttributeError"

definition unbound_name :: "string \<Rightarrow> pyerror + 'a" where
  "unbound_name name = Inl NameError"

text \<open>\<open>list(filter(f, xs))\<close> and \<open>list(map(f, xs))\<close> with an \<open>f\<close> that may raise.\<close>

fun list_filter :: "('a \<Rightarrow> pyerror + bool) \<Rightarrow> 'a list \<Rightarrow> pyerror + 'a list" where
  "list_filter f [] = Inr []"
| "list_filter f (x # xs) =
     (case f x of
        Inl e \<Rightarrow> Inl e
      | Inr keep \<Rightarrow>
          (case list_filter f xs of
             Inl e \<Rightarrow> Inl e
           | Inr ys \<Rightarrow> Inr (if keep then x # ys else ys)))"

fun list_map :: "('a \<Rightarrow> pyerror + 'b) \<Rightarrow> 'a list \<Rightarrow> pyerror + 'b list" where
  "list_map f [] = Inr []"
| "list_map f (x # xs) =
     (case f x of
        Inl e \<Rightarrow> Inl e
      | Inr y \<Rightarrow>
          (case list_map f xs of
             Inl e \<Rightarrow> Inl e
           | Inr ys \<Rightarrow> Inr (y # ys)))"

section \<open>Module constants\<close>

definition GRID_SIZE :: nat where
  "GRID_SIZE = 10"

record ship_def =
  def_intcode :: int
  def_length :: int

definition SHIPS :: "(string \<times> ship_def) list" where
  "SHIPS =
     [(''carrier'', \<lparr>def_intcode = 1, def_length = 5\<rparr>),
      (''battleship'', \<lparr>def_intcode = 2, def_length = 4\<rparr>),
      (''cruiser'', \<lparr>def_intcode = 3, def_length = 3\<rparr>),
      (''submarine'', \<lparr>def_intcode = 4, def_length = 3\<rparr>),
      (''destroyer'', \<lparr>def_intcode = 5, def_length = 2\<rparr>)]"

definition SHIPS_INTCODES :: "(int \<times> string) list" where
  "SHIPS_INTCODES = map (\<lambda>s. (def_intcode (snd s), fst s)) SHIPS"

definition MOVE_HIT :: int where
  "MOVE_HIT = 1"

definition MOVE_MISS :: int where
  "MOVE_MISS = 2"

section \<open>ShipModel\<close>

record ShipModel =
  id_s :: string
  hits :: int
  sunk :: bool
  length_s :: int
  intcode :: int

definition ShipModel_init :: "string \<Rightarrow> int \<Rightarrow> int \<Rightarrow> ShipModel" where
  "ShipModel_init id' len code =
     \<lparr>id_s = id', hits = 0, sunk = False, length_s = len, intcode = code\<rparr>"

text \<open>\<open>add_hit\<close> always returns True; the model returns the ship as the call leaves it.\<close>

definition add_hit :: "ShipModel \<Rightarrow> ShipModel" where
  "add_hit s =
     (let s1 = (if hits s < length_s s then s\<lparr>hits := hits s + 1\<rparr> else s)
      in if hits s1 \<ge> length_s s1 then s1\<lparr>sunk := True\<rparr> else s1)"

record ship_export =
  x_hits :: int
  x_sunk :: bool
  x_length :: int
  x_intcode :: int

definition export_s :: "ShipModel \<Rightarrow> ship_export" where
  "export_s s =
     \<lparr>x_hits = hits s, x_sunk = sunk s, x_length = length_s s, x_intcode = intcode s\<rparr>"

definition get_ship_id_by_intcode :: "int \<Rightarrow> pyerror + string" where
  "get_ship_id_by_intcode code = dict_get SHIPS_INTCODES code"

definition make_ship_by_id :: "string \<Rightarrow> pyerror + ShipModel" where
  "make_ship_by_id ship_id =
     (case dict_get SHIPS ship_id of
        Inl e \<Rightarrow> Inl e
      | Inr ship_def \<Rightarrow> Inr (ShipModel_init ship_id (def_length ship_def) (def_intcode ship_def)))"

section \<open>PlayerModel\<close>

text \<open>
  The two grids are numpy arrays of floats that only ever hold whole numbers; a grid is
  a list of rows of integers, row \<open>y\<close> first and column \<open>x\<close> inside it, as
  \<open>self.grid[y][x]\<close> reads it. \<open>moves_index\<close> holds what \<open>register_hit\<close> appends to it,
  the value stored in \<open>moves_map\<close>.
\<close>

type_synonym coords = "int \<times> int"

record PlayerModel =
  id_p :: string
  session_id :: string
  moves_map :: "(coords \<times> bool) list"
  moves_index :: "bool list"
  ships :: "(string \<times> ShipModel) list"
  grid :: "int list list"
  grid_attempts :: "int list list"
  sunk_all :: bool

definition zeros :: "nat \<Rightarrow> nat \<Rightarrow> int list list" where
  "zeros rows cols = replicate rows (replicate cols 0)"

text \<open>The two identifiers are fresh uuid4 strings; the model takes them as arguments.\<close>

definition PlayerModel_init :: "string \<Rightarrow> string \<Rightarrow> PlayerModel" where
  "PlayerModel_init new_id new_session =
     \<lparr>id_p = new_id, session_id = new_session, moves_map = [], moves_index = [],
      ships = [], grid = zeros GRID_SIZE GRID_SIZE,
      grid_attempts = zeros GRID_SIZE GRID_SIZE, sunk_all = False\<rparr>"

definition grid_get :: "int list list \<Rightarrow> int \<Rightarrow> int \<Rightarrow> pyerror + int" where
  "grid_get g y x =
     (case py_index (length g) y of
        None \<Rightarrow> Inl IndexError
      | Some r \<Rightarrow>
          (case py_index (length (g ! r)) x of
             None \<Rightarrow> Inl IndexError
           | Some c \<Rightarrow> Inr (g ! r ! c)))"

definition grid_set :: "int list list \<Rightarrow> int \<Rightarrow> int \<Rightarrow> int \<Rightarrow> pyerror + int list list" where
  "grid_set g y x v =
     (case py_index (length g) y of
        None \<Rightarrow> Inl IndexError
      | Some r \<Rightarrow>
          (case py_index (length (g ! r)) x of
             None \<Rightarrow> Inl IndexError
           | Some c \<Rightarrow> Inr (g[r := (g ! r)[c := v]])))"

definition has_ship :: "PlayerModel \<Rightarrow> string \<Rightarrow> bool" where
  "has_ship p ship_id = (ship_id \<in> fst ` set (ships p))"

definition check_all_ships_added :: "PlayerModel \<Rightarrow> bool" where
  "check_all_ships_added p = (length (ships p) = length SHIPS)"

text \<open>
  \<open>get_ship_at_coords\<close> returns the ship object stored in \<open>self.ships\<close>, which the caller
  then mutates in place. The model returns the ship together with the key it is stored
  under, so that the caller can write the mutated ship back.
\<close>

definition get_ship_at_coords :: "PlayerModel \<Rightarrow> coords \<Rightarrow> pyerror + (string \<times> ShipModel) option" where
  "get_ship_at_coords p cs =
     (case cs of (x, y) \<Rightarrow>
        (case grid_get (grid p) y x of
           Inl e \<Rightarrow> Inl e
         | Inr code \<Rightarrow>
             if code = 0 then Inr None
             else
               (case get_ship_id_by_intcode code of
                  Inl e \<Rightarrow> Inl e
                | Inr ship_id \<Rightarrow>
                    (case dict_get (ships p) ship_id of
                       Inl e \<Rightarrow> Inl e
                     | Inr ship \<Rightarrow> Inr (Some (ship_id, ship))))))"

definition add_grid_attempt :: "PlayerModel \<Rightarrow> bool \<Rightarrow> coords \<Rightarrow> pyerror + PlayerModel" where
  "add_grid_attempt p is_hit cs =
     (case cs of (x, y) \<Rightarrow>
        (let code = (if is_hit then MOVE_HIT else MOVE_MISS)
         in case grid_set (grid_attempts p) y x code of
              Inl e \<Rightarrow> Inl e
            | Inr g \<Rightarrow> Inr (p\<lparr>grid_attempts := g\<rparr>)))"

text \<open>
  \<open>is_sunk_all\<close> filters \<open>self.ships\<close> itself, and iterating a dict yields its keys: the
  lambda reads \<open>.sunk\<close> of a ship id.
\<close>

definition is_sunk_all :: "PlayerModel \<Rightarrow> pyerror + bool" where
  "is_sunk_all p =
     (case list_filter
             (\<lambda>s. case str_getattr s ''sunk'' of Inl e \<Rightarrow> Inl e | Inr b \<Rightarrow> Inr (\<not> b))
             (map fst (ships p)) of
        Inl e \<Rightarrow> Inl e
      | Inr unsunk \<Rightarrow> Inr (length unsunk = 0))"

record hit_data =
  hit :: bool
  sunk_d :: "bool option"
  sunk_all_d :: bool

type_synonym hit_result = "bool \<times> hit_data option \<times> string option"

definition register_hit :: "PlayerModel \<Rightarrow> coords \<Rightarrow> PlayerModel \<times> (pyerror + hit_result)" where
  "register_hit p cs =
     (if \<not> check_all_ships_added p then (p, Inr (False, None, Some ''not_all_ships_added''))
      else if sunk_all p then (p, Inr (False, None, Some ''all_ships_already_sunk''))
      else
        (case get_ship_at_coords p cs of
           Inl e \<Rightarrow> (p, Inl e)
         | Inr ship \<Rightarrow>
             (let is_hit = (ship \<noteq> None)
              in case add_grid_attempt p is_hit cs of
                   Inl e \<Rightarrow> (p, Inl e)
                 | Inr p1 \<Rightarrow>
                     (let p2 = p1\<lparr>moves_map := AList.update cs True (moves_map p1)\<rparr>
                      in case dict_get (moves_map p2) cs of
                           Inl e \<Rightarrow> (p2, Inl e)
                         | Inr entry \<Rightarrow>
                             (let p3 = p2\<lparr>moves_index := moves_index p2 @ [entry]\<rparr>
                              in case ship of
                                   None \<Rightarrow>
                                     (p3, Inr (True,
                                        Some \<lparr>hit = False, sunk_d = None, sunk_all_d = False\<rparr>,
                                        None))
                                 | Some (key, s) \<Rightarrow>
                                     (let s' = add_hit s;
                                          p4 = p3\<lparr>ships := AList.update key s' (ships p3)\<rparr>
                                      in case is_sunk_all p4 of
                                           Inl e \<Rightarrow> (p4, Inl e)
                                         | Inr all_sunk \<Rightarrow>
                                             (let p5 = (if all_sunk then p4\<lparr>sunk_all := True\<rparr> else p4)
                                              in (p5, Inr (True,
                                                    Some \<lparr>hit = True, sunk_d = Some (sunk s'),
                                                          sunk_all_d = sunk_all p5\<rparr>,
                                                    None)))))))))"

text \<open>
  A view into \<open>self.grid\<close>, as numpy slicing returns it, is the list of the (row,
  column) cells it addresses; None is Python's None, which \<open>get_ship_arr\<close> returns for
  an orientation other than x and y. An integer index out of range raises, a slice that
  runs past the edge is cut at the edge.
\<close>

type_synonym view = "(nat \<times> nat) list"

definition ncols :: "int list list \<Rightarrow> nat" where
  "ncols g = (case g of [] \<Rightarrow> 0 | r # _ \<Rightarrow> length r)"

definition get_ship_arr :: "PlayerModel \<Rightarrow> int \<Rightarrow> coords \<Rightarrow> string \<Rightarrow> pyerror + view option" where
  "get_ship_arr p ship_len cs orientation =
     (case cs of (x, y) \<Rightarrow>
        if orientation = ''x'' then
          (case py_index (length (grid p)) y of
             None \<Rightarrow> Inl IndexError
           | Some r \<Rightarrow>
               Inr (Some (map (\<lambda>c. (r, c)) (py_slice (length (grid p ! r)) x (x + ship_len)))))
        else if orientation = ''y'' then
          (case py_index (ncols (grid p)) x of
             None \<Rightarrow> Inl IndexError
           | Some c \<Rightarrow>
               Inr (Some (map (\<lambda>r. (r, c)) (py_slice (length (grid p)) y (y + ship_len)))))
        else Inr None)"

text \<open>\<open>is_space_available\<close> takes \<open>len\<close> of the filter object itself.\<close>

definition is_space_available :: "PlayerModel \<Rightarrow> view option \<Rightarrow> pyerror + bool" where
  "is_space_available p ship_arr =
     (case len_of_filter_object of
        Inl e \<Rightarrow> Inl e
      | Inr n \<Rightarrow> Inr (n = 0))"

text \<open>\<open>ship_arr.fill(v)\<close> writes through the view into the grid; None has no \<open>fill\<close>.\<close>

definition add_ship_coord_to_grid :: "PlayerModel \<Rightarrow> view option \<Rightarrow> int \<Rightarrow> PlayerModel \<times> (pyerror + bool)" where
  "add_ship_coord_to_grid p ship_arr ship_intit =
     (case ship_arr of
        None \<Rightarrow> (p, Inl AttributeError)
      | Some cells \<Rightarrow>
          (p\<lparr>grid := fold (\<lambda>(r, c) g. g[r := (g ! r)[c := ship_intit]]) cells (grid p)\<rparr>,
           Inr True))"

text \<open>
  The methods that class PlayerModel defines. \<open>add_ship\<close> calls
  \<open>self.add_ship_coords_to_grid\<close>, which is not among them.
\<close>

definition PlayerModel_methods :: "string list" where
  "PlayerModel_methods =
     [''export'', ''get_moves'', ''check_session'', ''has_ship'', ''check_all_ships_added'',
      ''add_ship'', ''add_ship_coord_to_grid'', ''is_space_available'', ''get_ship_arr'',
      ''parse_ship_coords'', ''parse_move'', ''get_ship_at_coords'', ''add_grid_attempt'',
      ''is_sunk_all'', ''register_hit'']"

definition PlayerModel_getattr :: "string \<Rightarrow> pyerror + unit" where
  "PlayerModel_getattr name =
     (if name \<in> set PlayerModel_methods then Inr () else Inl AttributeError)"

definition add_ship :: "PlayerModel \<Rightarrow> string \<Rightarrow> coords \<Rightarrow> string \<Rightarrow> PlayerModel \<times> (pyerror + bool)" where
  "add_ship p ship_id cs orientation =
     (if has_ship p ship_id then (p, Inr False)
      else
        (case make_ship_by_id ship_id of
           Inl e \<Rightarrow> (p, Inl e)
         | Inr ship \<Rightarrow>
             (case get_ship_arr p (length_s ship) cs orientation of
                Inl e \<Rightarrow> (p, Inl e)
              | Inr ship_arr \<Rightarrow>
                  (case is_space_available p ship_arr of
                     Inl e \<Rightarrow> (p, Inl e)
                   | Inr available \<Rightarrow>
                       if \<not> available then (p, Inr False)
                       else
                         (case PlayerModel_getattr ''add_ship_coords_to_grid'' of
                            Inl e \<Rightarrow> (p, Inl e)
                          | Inr _ \<Rightarrow>
                              (p\<lparr>ships := AList.update ship_id ship (ships p)\<rparr>, Inr True))))))"

text \<open>
  \<open>export\<close> builds its dict entry by entry. The entry \<open>grid_attempts\<close> is filled from
  \<open>self.grid\<close>; the entry \<open>ships\<close> maps \<open>s.export()\<close> over \<open>self.ships\<close>, that is over
  the ship ids. The viewer \<open>this_player_id\<close> defaults to None.
\<close>

record player_export =
  e_id :: string
  e_moves_index :: "bool list"
  e_sunk_all :: bool
  e_grid_attempts :: "int list list"
  e_grid :: "int list list option"
  e_ships :: "ship_export list option"

definition export_p :: "PlayerModel \<Rightarrow> string option \<Rightarrow> pyerror + player_export" where
  "export_p p this_player_id =
     (let is_this_player = (this_player_id = Some (id_p p))
      in case (if is_this_player
               then (case list_map (\<lambda>s. str_getattr s ''export'') (map fst (ships p)) of
                       Inl e \<Rightarrow> Inl e
                     | Inr exported \<Rightarrow> Inr (Some exported))
               else Inr None) of
           Inl e \<Rightarrow> Inl e
         | Inr ships_entry \<Rightarrow>
             Inr \<lparr>e_id = id_p p,
                  e_moves_index = moves_index p,
                  e_sunk_all = sunk_all p,
                  e_grid_attempts = grid p,
                  e_grid = (if is_this_player then Some (grid p) else None),
                  e_ships = ships_entry\<rparr>)"

section \<open>GameModel\<close>

text \<open>
  \<open>__init__\<close> assigns \<open>game_status\<close> and \<open>win_player\<close> to local variables, so both
  attributes keep the class's None.
\<close>

record GameModel =
  id_g :: string
  players :: "(string \<times> PlayerModel) list"
  game_status :: "bool option"
  win_player :: "string option"

definition GameModel_init :: "string \<Rightarrow> GameModel" where
  "GameModel_init new_id =
     \<lparr>id_g = new_id, players = [], game_status = None, win_player = None\<rparr>"

definition add_player :: "GameModel \<Rightarrow> string \<Rightarrow> string \<Rightarrow> GameModel \<times> PlayerModel option" where
  "add_player g new_id new_session =
     (if length (players g) \<ge> 2 then (g, None)
      else
        (let player = PlayerModel_init new_id new_session
         in (g\<lparr>players := AList.update (id_p player) player (players g)\<rparr>, Some player)))"

definition get_player_by_session_id :: "GameModel \<Rightarrow> string \<Rightarrow> PlayerModel option" where
  "get_player_by_session_id g sid =
     (let found = filter (\<lambda>p. session_id p = sid) (map snd (players g))
      in case found of [] \<Rightarrow> None | p # _ \<Rightarrow> Some p)"

definition has_player :: "GameModel \<Rightarrow> string \<Rightarrow> bool" where
  "has_player g player_id = (player_id \<in> fst ` set (players g))"

definition get_player :: "GameModel \<Rightarrow> string \<Rightarrow> pyerror + PlayerModel" where
  "get_player g player_id = dict_get (players g) player_id"

text \<open>
  \<open>get_opposing_player\<close> never assigns the list it filters: its first statement calls
  the name \<open>other_players\<close>, and the statements after it read that name again. What it
  would return is the first element of the first remaining item, a player id.
\<close>

definition get_opposing_player :: "GameModel \<Rightarrow> PlayerModel \<Rightarrow> pyerror + string option" where
  "get_opposing_player g this_player =
     (case unbound_name ''other_players'' of
        Inl e \<Rightarrow> Inl e
      | Inr (other_players :: (string \<times> PlayerModel) list) \<Rightarrow>
          (case other_players of
             [] \<Rightarrow> Inr None
           | item # _ \<Rightarrow> Inr (Some (fst item))))"

text \<open>
  \<open>register_winner\<close> is declared with the single parameter \<open>player\<close>; called as a bound
  method it receives two arguments.
\<close>

definition register_winner :: "GameModel \<Rightarrow> string \<Rightarrow> GameModel \<times> (pyerror + bool)" where
  "register_winner g player = (g, Inl TypeError)"

definition make_move :: "GameModel \<Rightarrow> PlayerModel \<Rightarrow> coords \<Rightarrow> GameModel \<times> (pyerror + hit_result)" where
  "make_move g this_player cs =
     (case get_opposing_player g this_player of
        Inl e \<Rightarrow> (g, Inl e)
      | Inr None \<Rightarrow> (g, Inr (False, None, Some ''no_opposing_player''))
      | Inr (Some oppose_player) \<Rightarrow>
          (case str_getattr oppose_player ''register_hit'' of
             Inl e \<Rightarrow> (g, Inl e)
           | Inr (hit_status, hit_data, hit_msg :: string option) \<Rightarrow>
               if \<not> hit_status then
                 (case unbound_name ''msg'' of
                    Inl e \<Rightarrow> (g, Inl e)
                  | Inr msg \<Rightarrow> (g, Inr (False, None, msg)))
               else
                 (case str_getattr oppose_player ''sunk_all'' of
                    Inl e \<Rightarrow> (g, Inl e)
                  | Inr opp_sunk_all \<Rightarrow>
                      if opp_sunk_all then
                        (case unbound_name ''player'' of
                           Inl e \<Rightarrow> (g, Inl e)
                         | Inr player \<Rightarrow>
                             (case register_winner g player of
                                (g', Inl e) \<Rightarrow> (g', Inl e)
                              | (g', Inr _) \<Rightarrow> (g', Inr (True, hit_data, None))))
                      else (g, Inr (True, hit_data, None)))))"

section \<open>A board with the whole catalog placed\<close>

text \<open>
  The five ships lie along x from the left edge, one per row, in catalog order: the
  carrier on row 0, the destroyer on row 4.
\<close>

definition fleet_grid :: "int list list" where
  "fleet_grid =
     [[1, 1, 1, 1, 1, 0, 0, 0, 0, 0],
      [2, 2, 2, 2, 0, 0, 0, 0, 0, 0],
      [3, 3, 3, 0, 0, 0, 0, 0, 0, 0],
      [4, 4, 4, 0, 0, 0, 0, 0, 0, 0],
      [5, 5, 0, 0, 0, 0, 0, 0, 0, 0],
      [0, 0, 0, 0, 0, 0, 0, 0, 0, 0],
      [0, 0, 0, 0, 0, 0, 0, 0, 0, 0],
      [0, 0, 0, 0, 0, 0, 0, 0, 0, 0],
      [0, 0, 0, 0, 0, 0, 0, 0, 0, 0],
      [0, 0, 0, 0, 0, 0, 0, 0, 0, 0]]"

definition fleet_ships :: "(string \<times> ShipModel) list" where
  "fleet_ships =
     map (\<lambda>s. (fst s, ShipModel_init (fst s) (def_length (snd s)) (def_intcode (snd s)))) SHIPS"

definition fleet_board :: PlayerModel where
  "fleet_board = (PlayerModel_init ''p2'' ''s2'')\<lparr>ships := fleet_ships, grid := fleet_grid\<rparr>"

text \<open>A board that holds the carrier alone, on row 0 from the left edge.\<close>

definition carrier_board :: PlayerModel where
  "carrier_board =
     (PlayerModel_init ''p1'' ''s1'')
       \<lparr>ships := [(''carrier'', ShipModel_init ''carrier'' 5 1)],
        grid := (zeros GRID_SIZE GRID_SIZE)[0 := [1, 1, 1, 1, 1, 0, 0, 0, 0, 0]]\<rparr>"

text \<open>
  The same coordinate attacked \<open>n\<close> times in a row, keeping the board each call leaves
  behind, whether the call returned or raised.
\<close>

definition attack_repeatedly :: "nat \<Rightarrow> coords \<Rightarrow> PlayerModel \<Rightarrow> PlayerModel" where
  "attack_repeatedly n cs p = ((\<lambda>q. fst (register_hit q cs)) ^^ n) p"

section \<open>Ships under fire\<close>

lemma add_hit_length [simp]: "length_s (add_hit s) = length_s s"
  by (simp add: add_hit_def Let_def)

lemma add_hit_inv:
  "hits s \<le> length_s s \<Longrightarrow> hits (add_hit s) \<le> length_s s"
  by (simp add: add_hit_def Let_def)

lemma add_hit_mono: "hits s \<le> hits (add_hit s)"
  by (simp add: add_hit_def Let_def)

lemma add_hit_sunk:
  "hits s \<le> length_s s \<Longrightarrow> (sunk s \<longrightarrow> hits s = length_s s) \<Longrightarrow>
   sunk (add_hit s) = (hits (add_hit s) = length_s s)"
  by (auto simp add: add_hit_def Let_def)

lemma add_hit_noop:
  "hits s \<le> length_s s \<Longrightarrow> (sunk s \<longrightarrow> hits s = length_s s) \<Longrightarrow> sunk s \<Longrightarrow> add_hit s = s"
  by (simp add: add_hit_def Let_def)

lemma add_hit_funpow_length [simp]: "length_s ((add_hit ^^ n) s) = length_s s"
  by (induction n) simp_all

lemma add_hit_funpow_inv:
  assumes "hits s \<le> length_s s" and "sunk s \<longrightarrow> hits s = length_s s"
  shows "hits ((add_hit ^^ n) s) \<le> length_s s \<and>
         (sunk ((add_hit ^^ n) s) \<longrightarrow> hits ((add_hit ^^ n) s) = length_s s)"
proof (induction n)
  case 0
  from assms show ?case by simp
next
  case (Suc n)
  let ?t = "(add_hit ^^ n) s"
  from Suc have le: "hits ?t \<le> length_s ?t" and sk: "sunk ?t \<longrightarrow> hits ?t = length_s ?t"
    by simp_all
  from le have "hits (add_hit ?t) \<le> length_s ?t" by (rule add_hit_inv)
  moreover from le sk have "sunk (add_hit ?t) = (hits (add_hit ?t) = length_s ?t)"
    by (rule add_hit_sunk)
  ultimately show ?case by simp
qed

text \<open>
  C3. A ship is created with no hits and not sunk. Whatever number of \<open>add_hit\<close> calls it
  has already received, the next call leaves the hit count at most the length, does not
  decrease it, makes the sunk flag equal to (hit count = length), and changes nothing at
  all when the ship was already sunk. The lengths of the catalog are positive; the
  statement covers every length that is not negative.
\<close>

theorem add_hit_invariant:
  assumes "0 \<le> len"
  shows "let before = (add_hit ^^ n) (ShipModel_init i len c); after = add_hit before
         in hits after \<le> length_s after \<and> hits before \<le> hits after
            \<and> sunk after = (hits after = length_s after)
            \<and> (sunk before \<longrightarrow> after = before)"
proof -
  let ?s0 = "ShipModel_init i len c"
  let ?b = "(add_hit ^^ n) ?s0"
  from assms have h0: "hits ?s0 \<le> length_s ?s0" and k0: "sunk ?s0 \<longrightarrow> hits ?s0 = length_s ?s0"
    by (simp_all add: ShipModel_init_def)
  from add_hit_funpow_inv [OF h0 k0, of n]
  have le: "hits ?b \<le> length_s ?b" and sk: "sunk ?b \<longrightarrow> hits ?b = length_s ?b"
    by simp_all
  have "hits (add_hit ?b) \<le> length_s (add_hit ?b)" using add_hit_inv [OF le] by simp
  moreover have "hits ?b \<le> hits (add_hit ?b)" by (rule add_hit_mono)
  moreover have "sunk (add_hit ?b) = (hits (add_hit ?b) = length_s (add_hit ?b))"
    using add_hit_sunk [OF le sk] by simp
  moreover have "sunk ?b \<longrightarrow> add_hit ?b = ?b" using add_hit_noop [OF le sk] by simp
  ultimately show ?thesis by (simp add: Let_def)
qed

text \<open>The carrier, after four hits, takes its fifth.\<close>

theorem add_hit_invariant_witness:
  "(0::int) \<le> 5 \<and>
   (let before = (add_hit ^^ 4) (ShipModel_init ''carrier'' 5 1); after = add_hit before
    in hits after \<le> length_s after \<and> hits before \<le> hits after
       \<and> sunk after = (hits after = length_s after)
       \<and> (sunk before \<longrightarrow> after = before))"
  using add_hit_invariant [of 5 4 "''carrier''" 1] by simp

section \<open>Grids and dicts\<close>

lemma py_index_less: "py_index n i = Some r \<Longrightarrow> r < n"
  by (auto simp add: py_index_def split: if_splits)

lemma grid_set_shape:
  assumes "grid_set g y x v = Inr g'"
  shows "map length g' = map length g"
proof -
  from assms obtain r c where r: "py_index (length g) y = Some r"
    and g': "g' = g[r := (g ! r)[c := v]]"
    by (auto simp add: grid_set_def split: option.splits)
  from r have "r < length g" by (rule py_index_less)
  then show ?thesis by (simp add: g' map_update list_update_same_conv)
qed

lemma grid_set_defined:
  assumes shape: "map length g1 = map length g2"
    and get: "grid_get g2 y x = Inr v"
  shows "\<exists>g'. grid_set g1 y x w = Inr g'"
proof -
  from get obtain r c where r: "py_index (length g2) y = Some r"
    and c: "py_index (length (g2 ! r)) x = Some c"
    by (auto simp add: grid_get_def split: option.splits)
  from shape have len: "length g1 = length g2" by (rule map_eq_imp_length_eq)
  from r have "r < length g2" by (rule py_index_less)
  with shape len have "length (g1 ! r) = length (g2 ! r)"
    by (metis nth_map)
  with r c len show ?thesis by (simp add: grid_set_def)
qed

lemma is_sunk_all_raises: "ships p \<noteq> [] \<Longrightarrow> is_sunk_all p = Inl AttributeError"
  by (cases "ships p") (simp_all add: is_sunk_all_def str_getattr_def)

lemma update_length_existing:
  "k \<in> fst ` set al \<Longrightarrow> length (AList.update k v al) = length al"
  by (induction al) auto

lemma update_not_Nil: "AList.update k v al \<noteq> []"
  by (cases al) simp_all

lemma dict_get_update_same: "dict_get (AList.update k v al) k = Inr v"
  by (simp add: dict_get_def update_conv')

lemma dict_get_Inr_key: "dict_get al k = Inr v \<Longrightarrow> k \<in> fst ` set al"
  by (auto simp add: dict_get_def split: option.splits dest: map_of_SomeD intro: rev_image_eqI)

lemma get_ship_at_coords_Some_iff:
  "get_ship_at_coords p (x, y) = Inr (Some (k, s)) \<longleftrightarrow>
   (\<exists>code. grid_get (grid p) y x = Inr code \<and> code \<noteq> 0
      \<and> get_ship_id_by_intcode code = Inr k \<and> dict_get (ships p) k = Inr s)"
  by (auto simp add: get_ship_at_coords_def split: sum.splits)

lemma register_hit_on_ship:
  assumes all: "check_all_ships_added p"
    and ns: "\<not> sunk_all p"
    and shape: "map length (grid_attempts p) = map length (grid p)"
    and at: "get_ship_at_coords p cs = Inr (Some (k, s))"
  shows "\<exists>g'. map length g' = map length (grid p) \<and>
     register_hit p cs =
       (p\<lparr>grid_attempts := g',
          moves_map := AList.update cs True (moves_map p),
          moves_index := moves_index p @ [True],
          ships := AList.update k (add_hit s) (ships p)\<rparr>,
        Inl AttributeError)"
proof -
  obtain x y where cs: "cs = (x, y)" by (cases cs)
  from at cs obtain code where get: "grid_get (grid p) y x = Inr code"
    by (auto simp add: get_ship_at_coords_Some_iff)
  from grid_set_defined [OF shape get] obtain g'
    where set: "grid_set (grid_attempts p) y x MOVE_HIT = Inr g'" by blast
  from grid_set_shape [OF set] shape have sh: "map length g' = map length (grid p)" by simp
  from set cs have aga: "add_grid_attempt p True cs = Inr (p\<lparr>grid_attempts := g'\<rparr>)"
    by (simp add: add_grid_attempt_def)
  have "register_hit p cs =
       (p\<lparr>grid_attempts := g',
          moves_map := AList.update cs True (moves_map p),
          moves_index := moves_index p @ [True],
          ships := AList.update k (add_hit s) (ships p)\<rparr>,
        Inl AttributeError)"
    using all ns at aga
    by (simp add: register_hit_def Let_def dict_get_update_same is_sunk_all_raises update_not_Nil)
  with sh show ?thesis by blast
qed

lemma register_hit_on_empty:
  assumes all: "check_all_ships_added p"
    and ns: "\<not> sunk_all p"
    and shape: "map length (grid_attempts p) = map length (grid p)"
    and at: "get_ship_at_coords p cs = Inr None"
  shows "\<exists>g'. register_hit p cs =
       (p\<lparr>grid_attempts := g',
          moves_map := AList.update cs True (moves_map p),
          moves_index := moves_index p @ [True]\<rparr>,
        Inr (True, Some \<lparr>hit = False, sunk_d = None, sunk_all_d = False\<rparr>, None))"
proof -
  obtain x y where cs: "cs = (x, y)" by (cases cs)
  from at cs obtain code where get: "grid_get (grid p) y x = Inr code"
    by (auto simp add: get_ship_at_coords_def split: sum.splits if_splits)
  from grid_set_defined [OF shape get] obtain g'
    where set: "grid_set (grid_attempts p) y x MOVE_MISS = Inr g'" by blast
  from set cs have aga: "add_grid_attempt p False cs = Inr (p\<lparr>grid_attempts := g'\<rparr>)"
    by (simp add: add_grid_attempt_def)
  have "register_hit p cs =
       (p\<lparr>grid_attempts := g',
          moves_map := AList.update cs True (moves_map p),
          moves_index := moves_index p @ [True]\<rparr>,
        Inr (True, Some \<lparr>hit = False, sunk_d = None, sunk_all_d = False\<rparr>, None))"
    using all ns at aga
    by (simp add: register_hit_def Let_def dict_get_update_same)
  then show ?thesis by blast
qed


section \<open>Counting hits\<close>

lemma add_hit_hits:
  "hits s \<le> length_s s \<Longrightarrow> hits (add_hit s) = min (hits s + 1) (length_s s)"
  by (simp add: add_hit_def Let_def)

lemma add_hit_sinks: "length_s s \<le> hits s + 1 \<Longrightarrow> sunk (add_hit s)"
  by (simp add: add_hit_def Let_def)

lemma add_hit_funpow_hits:
  "hits s \<le> length_s s \<Longrightarrow> hits ((add_hit ^^ n) s) = min (hits s + int n) (length_s s)"
proof (induction n)
  case 0
  then show ?case by simp
next
  case (Suc n)
  let ?t = "(add_hit ^^ n) s"
  from Suc have t: "hits ?t = min (hits s + int n) (length_s s)" by simp
  then have "hits ?t \<le> length_s ?t" by simp
  then have "hits (add_hit ?t) = min (hits ?t + 1) (length_s ?t)" by (rule add_hit_hits)
  with t show ?case by simp
qed

lemma add_hit_funpow_sunk:
  assumes "hits s \<le> length_s s" and "length_s s \<le> hits s + int n" and "0 < n"
  shows "sunk ((add_hit ^^ n) s)"
proof -
  from \<open>0 < n\<close> obtain m where n: "n = Suc m" by (cases n) simp_all
  let ?t = "(add_hit ^^ m) s"
  from assms(1) have "hits ?t = min (hits s + int m) (length_s s)" by (rule add_hit_funpow_hits)
  with assms(2) n have "length_s ?t \<le> hits ?t + 1" by simp
  then have "sunk (add_hit ?t)" by (rule add_hit_sinks)
  with n show ?thesis by simp
qed


section \<open>The board with the whole catalog\<close>

lemma fleet_facts:
  "check_all_ships_added fleet_board" "\<not> sunk_all fleet_board"
  "map length (grid_attempts fleet_board) = map length (grid fleet_board)"
  by code_simp+

lemma fleet_destroyer:
  "get_ship_at_coords fleet_board (0, 4) = Inr (Some (''destroyer'', ShipModel_init ''destroyer'' 2 5))"
  by code_simp


section \<open>Attacks on a board\<close>

lemma attack_repeatedly_inv:
  assumes all: "check_all_ships_added p"
    and ns: "\<not> sunk_all p"
    and shape: "map length (grid_attempts p) = map length (grid p)"
    and at: "get_ship_at_coords p cs = Inr (Some (k, s))"
  shows "check_all_ships_added (attack_repeatedly n cs p)
     \<and> \<not> sunk_all (attack_repeatedly n cs p)
     \<and> map length (grid_attempts (attack_repeatedly n cs p))
         = map length (grid (attack_repeatedly n cs p))
     \<and> get_ship_at_coords (attack_repeatedly n cs p) cs = Inr (Some (k, (add_hit ^^ n) s))"
proof (induction n)
  case 0
  from assms show ?case by (simp add: attack_repeatedly_def)
next
  case (Suc n)
  let ?q = "attack_repeatedly n cs p"
  let ?s = "(add_hit ^^ n) s"
  obtain x y where cs: "cs = (x, y)" by (cases cs)
  from Suc have qa: "check_all_ships_added ?q" and qn: "\<not> sunk_all ?q"
    and qs: "map length (grid_attempts ?q) = map length (grid ?q)"
    and qat: "get_ship_at_coords ?q cs = Inr (Some (k, ?s))" by simp_all
  from register_hit_on_ship [OF qa qn qs qat] obtain g'
    where sh: "map length g' = map length (grid ?q)"
      and step: "register_hit ?q cs =
         (?q\<lparr>grid_attempts := g',
            moves_map := AList.update cs True (moves_map ?q),
            moves_index := moves_index ?q @ [True],
            ships := AList.update k (add_hit ?s) (ships ?q)\<rparr>,
          Inl AttributeError)" by blast
  have next_q: "attack_repeatedly (Suc n) cs p = fst (register_hit ?q cs)"
    by (simp add: attack_repeatedly_def)
  from qat cs have key: "k \<in> fst ` set (ships ?q)"
    by (auto simp add: get_ship_at_coords_Some_iff dest: dict_get_Inr_key)
  from qa key have "check_all_ships_added (attack_repeatedly (Suc n) cs p)"
    by (simp add: next_q step check_all_ships_added_def update_length_existing)
  moreover from qn have "\<not> sunk_all (attack_repeatedly (Suc n) cs p)"
    by (simp add: next_q step)
  moreover from sh have "map length (grid_attempts (attack_repeatedly (Suc n) cs p))
         = map length (grid (attack_repeatedly (Suc n) cs p))"
    by (simp add: next_q step)
  moreover have "get_ship_at_coords (attack_repeatedly (Suc n) cs p) cs = Inr (Some (k, (add_hit ^^ Suc n) s))"
  proof -
    from qat cs obtain code where "grid_get (grid ?q) y x = Inr code" and "code \<noteq> 0"
      and "get_ship_id_by_intcode code = Inr k"
      by (auto simp add: get_ship_at_coords_Some_iff)
    moreover have "grid (attack_repeatedly (Suc n) cs p) = grid ?q"
      by (simp add: next_q step)
    moreover have "dict_get (ships (attack_repeatedly (Suc n) cs p)) k = Inr (add_hit ?s)"
      by (simp add: next_q step dict_get_update_same)
    ultimately have "get_ship_at_coords (attack_repeatedly (Suc n) cs p) (x, y)
        = Inr (Some (k, add_hit ?s))"
      unfolding get_ship_at_coords_Some_iff by simp
    with cs show ?thesis by simp
  qed
  ultimately show ?case by simp
qed


text \<open>
  C10. On a board with all ships placed and not marked defeated, an attack on a cell of
  a ship that has no hits yet passes that ship to \<open>add_hit\<close>, and so does every
  repetition of the same attack: after \<open>n\<close> attacks on that one coordinate the board
  stores the ship with \<open>add_hit\<close> applied \<open>n\<close> times. After as many attacks as the
  ship is long, its hit count equals its length and it is sunk, no other cell of it having
  been attacked.
\<close>

theorem repeated_attack_sinks_ship:
  assumes all: "check_all_ships_added p"
    and ns: "\<not> sunk_all p"
    and shape: "map length (grid_attempts p) = map length (grid p)"
    and at: "get_ship_at_coords p cs = Inr (Some (k, s))"
    and fresh: "hits s = 0"
    and len: "0 < length_s s"
  shows "(\<forall>n. dict_get (ships (attack_repeatedly n cs p)) k = Inr ((add_hit ^^ n) s))
     \<and> (\<forall>n. ships (attack_repeatedly (Suc n) cs p)
             = AList.update k (add_hit ((add_hit ^^ n) s)) (ships (attack_repeatedly n cs p)))
     \<and> (case dict_get (ships (attack_repeatedly (nat (length_s s)) cs p)) k of
           Inl e \<Rightarrow> False
         | Inr s' \<Rightarrow> hits s' = length_s s \<and> sunk s')"
proof -
  obtain x y where cs: "cs = (x, y)" by (cases cs)
  have stored: "dict_get (ships (attack_repeatedly n cs p)) k = Inr ((add_hit ^^ n) s)" for n
    using attack_repeatedly_inv [OF all ns shape at, of n] cs
    by (auto simp add: get_ship_at_coords_Some_iff)
  have step: "ships (attack_repeatedly (Suc n) cs p)
             = AList.update k (add_hit ((add_hit ^^ n) s)) (ships (attack_repeatedly n cs p))" for n
  proof -
    let ?q = "attack_repeatedly n cs p"
    from attack_repeatedly_inv [OF all ns shape at, of n]
    have qa: "check_all_ships_added ?q" and qn: "\<not> sunk_all ?q"
      and qs: "map length (grid_attempts ?q) = map length (grid ?q)"
      and qat: "get_ship_at_coords ?q cs = Inr (Some (k, (add_hit ^^ n) s))" by simp_all
    from register_hit_on_ship [OF qa qn qs qat] show ?thesis
      by (auto simp add: attack_repeatedly_def)
  qed
  from fresh len have le: "hits s \<le> length_s s" by simp
  from fresh len have "hits ((add_hit ^^ nat (length_s s)) s) = length_s s"
    by (simp add: add_hit_funpow_hits [OF le])
  moreover from fresh len have "sunk ((add_hit ^^ nat (length_s s)) s)"
    by (intro add_hit_funpow_sunk) simp_all
  ultimately show ?thesis using stored step by simp
qed

text \<open>The destroyer of the full board, attacked twice at its first cell (0, 4).\<close>

theorem repeated_attack_sinks_ship_witness:
  "check_all_ships_added fleet_board \<and> \<not> sunk_all fleet_board
   \<and> map length (grid_attempts fleet_board) = map length (grid fleet_board)
   \<and> get_ship_at_coords fleet_board (0, 4)
       = Inr (Some (''destroyer'', ShipModel_init ''destroyer'' 2 5))
   \<and> hits (ShipModel_init ''destroyer'' 2 5) = 0
   \<and> 0 < length_s (ShipModel_init ''destroyer'' 2 5)
   \<and> (case dict_get (ships (attack_repeatedly 2 (0, 4) fleet_board)) ''destroyer'' of
         Inl e \<Rightarrow> False
       | Inr s' \<Rightarrow> hits s' = 2 \<and> sunk s')"
proof -
  have fresh: "hits (ShipModel_init ''destroyer'' 2 5) = 0"
    and len: "0 < length_s (ShipModel_init ''destroyer'' 2 5)"
    by (simp_all add: ShipModel_init_def)
  have two: "nat (length_s (ShipModel_init ''destroyer'' 2 5)) = 2"
    and len2: "length_s (ShipModel_init ''destroyer'' 2 5) = 2"
    by (simp_all add: ShipModel_init_def)
  note sinks = repeated_attack_sinks_ship
    [OF fleet_facts fleet_destroyer fresh len, THEN conjunct2, THEN conjunct2]
  from sinks [unfolded two len2] fleet_facts fleet_destroyer fresh len
  show ?thesis by simp
qed

section \<open>Rejected attacks\<close>

text \<open>
  C7. While fewer than the five catalog ships are placed, \<open>register_hit\<close> returns the
  rejection \<open>not_all_ships_added\<close>; with all ships placed and the board's \<open>sunk_all\<close>
  flag already set, it returns \<open>all_ships_already_sunk\<close>. In both cases the board comes
  back as it was, the attack grid and every ship included.
\<close>

theorem register_hit_rejections:
  "(length (ships p) < 5 \<longrightarrow>
      register_hit p cs = (p, Inr (False, None, Some ''not_all_ships_added'')))
   \<and> (check_all_ships_added p \<and> sunk_all p \<longrightarrow>
      register_hit p cs = (p, Inr (False, None, Some ''all_ships_already_sunk'')))"
  by (simp add: register_hit_def check_all_ships_added_def SHIPS_def)

text \<open>A board that has just been created, and the full board with its flag set.\<close>

theorem register_hit_rejections_witness:
  "length (ships (PlayerModel_init ''p1'' ''s1'')) < 5
   \<and> register_hit (PlayerModel_init ''p1'' ''s1'') (0, 0)
       = (PlayerModel_init ''p1'' ''s1'', Inr (False, None, Some ''not_all_ships_added''))
   \<and> check_all_ships_added (fleet_board\<lparr>sunk_all := True\<rparr>)
   \<and> sunk_all (fleet_board\<lparr>sunk_all := True\<rparr>)
   \<and> register_hit (fleet_board\<lparr>sunk_all := True\<rparr>) (0, 0)
       = (fleet_board\<lparr>sunk_all := True\<rparr>, Inr (False, None, Some ''all_ships_already_sunk''))"
proof -
  have a: "length (ships (PlayerModel_init ''p1'' ''s1'')) < 5"
    by (simp add: PlayerModel_init_def)
  have b: "check_all_ships_added (fleet_board\<lparr>sunk_all := True\<rparr>)"
    using fleet_facts(1) by (simp add: check_all_ships_added_def)
  have c: "sunk_all (fleet_board\<lparr>sunk_all := True\<rparr>)" by simp
  from a b c
    register_hit_rejections [of "PlayerModel_init ''p1'' ''s1''" "(0, 0)"]
    register_hit_rejections [of "fleet_board\<lparr>sunk_all := True\<rparr>" "(0, 0)"]
  show ?thesis by simp
qed

section \<open>Where the code leaves the specification\<close>

lemma add_ship_keeps_board: "fst (add_ship p ship_id cs orientation) = p"
  by (simp add: add_ship_def is_space_available_def len_of_filter_object_def
      split: sum.splits)

lemma add_ship_never_succeeds: "snd (add_ship p ship_id cs orientation) \<noteq> Inr True"
  by (simp add: add_ship_def is_space_available_def len_of_filter_object_def
      split: sum.splits)

text \<open>
  A placement of two empty cells inside the grid ends in the TypeError of
  \<open>is_space_available\<close>, and \<open>get_ship_arr\<close> cuts a footprint at the edge of the grid
  rather than refusing it.
\<close>

lemma add_ship_on_empty_cells:
  "add_ship (PlayerModel_init ''p1'' ''s1'') ''destroyer'' (0, 0) ''x''
     = (PlayerModel_init ''p1'' ''s1'', Inl TypeError)"
  by code_simp

lemma get_ship_arr_cuts_at_edge:
  "get_ship_arr (PlayerModel_init ''p1'' ''s1'') 5 (8, 0) ''x'' = Inr (Some [(0, 8), (0, 9)])"
  by code_simp

lemma add_ship_duplicate:
  "has_ship p ship_id \<Longrightarrow> add_ship p ship_id cs orientation = (p, Inr False)"
  by (simp add: add_ship_def)

text \<open>
  C1. \<open>add_ship\<close> does leave the board as it was, and it does return False for a kind
  that is already placed. For a footprint that runs off the grid, and for one that
  addresses an occupied cell, it raises instead of returning a rejection. On a new board
  the carrier at (0, 10) along x indexes row 10, an IndexError. The carrier at (8, 0)
  along x is not refused by \<open>get_ship_arr\<close>, which cuts the footprint at the edge, and
  the call ends in the TypeError of \<open>len(filter(...))\<close>. So does the destroyer laid at
  (0, 0) over the carrier.
\<close>

theorem add_ship_raises_instead_of_rejecting:
  "add_ship (PlayerModel_init ''p1'' ''s1'') ''carrier'' (0, 10) ''x''
     = (PlayerModel_init ''p1'' ''s1'', Inl IndexError)
   \<and> add_ship (PlayerModel_init ''p1'' ''s1'') ''carrier'' (8, 0) ''x''
     = (PlayerModel_init ''p1'' ''s1'', Inl TypeError)
   \<and> grid_get (grid carrier_board) 0 0 = Inr 1
   \<and> add_ship carrier_board ''destroyer'' (0, 0) ''x'' = (carrier_board, Inl TypeError)"
  by code_simp

text \<open>
  C2. On the full board an attack on (0, 0), a cell of the carrier, raises
  AttributeError out of \<open>is_sunk_all\<close>: the carrier has taken its hit by then, and no
  result is returned. An attack on an empty cell does return the miss the specification
  describes (\<open>register_hit_on_empty\<close>).
\<close>

theorem register_hit_on_ship_cell_raises:
  "snd (register_hit fleet_board (0, 0)) = Inl AttributeError
   \<and> dict_get (ships (fst (register_hit fleet_board (0, 0)))) ''carrier''
       = Inr (add_hit (ShipModel_init ''carrier'' 5 1))
   \<and> \<not> sunk_all (fst (register_hit fleet_board (0, 0)))"
  by code_simp

lemma export_p_moves_index:
  "export_p p viewer = Inr e \<Longrightarrow> e_moves_index e = moves_index p"
  by (auto simp add: export_p_def Let_def split: sum.splits if_splits)

lemma export_p_other_viewer:
  "viewer \<noteq> Some (id_p p) \<Longrightarrow>
   export_p p viewer =
     Inr \<lparr>e_id = id_p p, e_moves_index = moves_index p, e_sunk_all = sunk_all p,
          e_grid_attempts = grid p, e_grid = None, e_ships = None\<rparr>"
  by (simp add: export_p_def)

text \<open>
  C4. The export of the full board for a viewer who is not its owner carries the
  placement grid in its \<open>grid_attempts\<close> entry, so the ship layout is disclosed to every
  viewer and the attack grid to none: two boards that differ only in where the ships lie
  export differently. For the owner the same board does not export at all.
\<close>

theorem export_discloses_placement_grid:
  "export_p fleet_board None =
     Inr \<lparr>e_id = ''p2'', e_moves_index = [], e_sunk_all = False,
          e_grid_attempts = fleet_grid, e_grid = None, e_ships = None\<rparr>
   \<and> fleet_grid \<noteq> grid_attempts fleet_board
   \<and> export_p fleet_board None \<noteq> export_p (fleet_board\<lparr>grid := rev fleet_grid\<rparr>) None
   \<and> export_p fleet_board (Some ''p2'') = Inl AttributeError"
  by code_simp

lemma make_move_always_raises: "make_move g this_player cs = (g, Inl NameError)"
  by (simp add: make_move_def get_opposing_player_def unbound_name_def)

text \<open>
  C5. In a match of two players, the second with the whole catalog placed, a move of the
  first player raises NameError inside \<open>get_opposing_player\<close>: the opponent's board is
  never asked, no winner is set, no result is returned. With a single player the call
  raises the same way rather than rejecting.
\<close>

theorem make_move_raises:
  "make_move
     ((GameModel_init ''g'')\<lparr>players := [(''p1'', PlayerModel_init ''p1'' ''s1''), (''p2'', fleet_board)]\<rparr>)
     (PlayerModel_init ''p1'' ''s1'') (0, 0)
   = ((GameModel_init ''g'')\<lparr>players := [(''p1'', PlayerModel_init ''p1'' ''s1''), (''p2'', fleet_board)]\<rparr>,
      Inl NameError)
   \<and> snd (make_move (fst (add_player (GameModel_init ''g'') ''p1'' ''s1''))
        (PlayerModel_init ''p1'' ''s1'') (0, 0)) = Inl NameError"
  by code_simp

lemma get_player_by_session_id_absent:
  "sid \<notin> session_id ` snd ` set (players g) \<Longrightarrow> get_player_by_session_id g sid = None"
proof -
  assume "sid \<notin> session_id ` snd ` set (players g)"
  then have "filter (\<lambda>p. session_id p = sid) (map snd (players g)) = []"
    by (auto simp add: filter_empty_conv)
  then show ?thesis by (simp add: get_player_by_session_id_def)
qed

lemma get_player_absent:
  "player_id \<notin> fst ` set (players g) \<Longrightarrow> get_player g player_id = Inl KeyError"
proof -
  assume "player_id \<notin> fst ` set (players g)"
  then have "map_of (players g) player_id = None" by (simp add: map_of_eq_None_iff)
  then show ?thesis by (simp add: get_player_def dict_get_def)
qed

text \<open>
  C8. \<open>get_player_by_session_id\<close> returns None for a token no player holds
  (\<open>get_player_by_session_id_absent\<close>). \<open>get_player\<close> indexes the dict: in a match that
  one player has joined, the identifier of nobody raises KeyError.
\<close>

theorem get_player_unknown_raises:
  "get_player (fst (add_player (GameModel_init ''g'') ''p1'' ''s1'')) ''nobody'' = Inl KeyError
   \<and> get_player_by_session_id (fst (add_player (GameModel_init ''g'') ''p1'' ''s1'')) ''nobody''
       = None"
  by code_simp

text \<open>
  C9. A successful attack adds one entry to \<open>moves_index\<close>, and every export that
  returns carries the list (\<open>export_p_moves_index\<close>). The entry is the value True, not
  the coordinate: the attacks on (9, 9) and on (7, 8) leave the same log.
\<close>

theorem moves_index_records_true:
  "snd (register_hit fleet_board (9, 9))
     = Inr (True, Some \<lparr>hit = False, sunk_d = None, sunk_all_d = False\<rparr>, None)
   \<and> snd (register_hit fleet_board (7, 8))
     = Inr (True, Some \<lparr>hit = False, sunk_d = None, sunk_all_d = False\<rparr>, None)
   \<and> moves_index (fst (register_hit fleet_board (9, 9))) = [True]
   \<and> moves_index (fst (register_hit fleet_board (7, 8))) = [True]"
  by code_simp

end
